theory Spec2Isabelle
  imports Main
begin

section \<open>View query execution and result iteration (bucket\_query.go)\<close>

text \<open>
  A shallow embedding of \<^verbatim>\<open>bucket_query.go\<close>. Go's \<^verbatim>\<open>int\<close> is modelled by
  \<open>int\<close>: the only arithmetic of the file is \<^verbatim>\<open>r.index+1\<close> and \<^verbatim>\<open>r.index++\<close>, and
  the cursor of an iterator made by \<^verbatim>\<open>executeViewQuery\<close> stays between \<open>-1\<close> and
  \<^verbatim>\<open>len(r.rows)-1\<close> (lemma \<open>wf_cursor_step\<close> below), where a slice has no more elements
  than the largest \<^verbatim>\<open>int\<close>, so no wrap-around arises.
  Mutation through the receiver \<^verbatim>\<open>r\<close> and through \<^verbatim>\<open>valuePtr\<close> is explicit state
  passing; a run-time panic is a value of \<open>go_panic\<close>.
\<close>

subsection \<open>Data model\<close>

text \<open>
  A \<^verbatim>\<open>[]byte\<close> / \<^verbatim>\<open>json.RawMessage\<close>: \<open>None\<close> is the \<^verbatim>\<open>nil\<close> slice, which the code
  tests with \<^verbatim>\<open>row == nil\<close>; \<open>Some bs\<close> is a non-nil slice holding the bytes \<open>bs\<close>.
\<close>

type_synonym RawMessage = "string option"

text \<open>\<^verbatim>\<open>type viewError struct { Message string; Reason string }\<close>\<close>

record viewError =
  Message :: string
  Reason :: string

text \<open>\<^verbatim>\<open>func (e *viewError) Error() string\<close>\<close>

definition viewError_Error :: "viewError \<Rightarrow> string" where
  "viewError_Error e = Message e @ '' - '' @ Reason e"

text \<open>
  Go's \<^verbatim>\<open>error\<close> values that occur in this file. \<open>ViewErr\<close> is a \<^verbatim>\<open>*viewError\<close>.
  \<open>OtherError\<close> stands for every error made outside this file (endpoint lookup,
  \<^verbatim>\<open>net/http\<close>, \<^verbatim>\<open>encoding/json\<close>), identified by its text.

  Modelled from the spec: the package variable \<^verbatim>\<open>ErrNoResults\<close> is declared outside
  \<^verbatim>\<open>bucket_query.go\<close>; the spec calls it a distinct, identifiable error kind, not
  conflated with a query error, so it is a constructor of its own.
\<close>

datatype error = ErrNoResults | ViewErr viewError | OtherError string

text \<open>
  \<^verbatim>\<open>type viewResponse struct\<close>, the decoded envelope. Its fields carry the prefix
  \<open>resp_\<close> because \<open>Reason\<close> is a field of \<open>viewError\<close> too and \<open>TotalRows\<close> is
  also a method of the iterator.
\<close>

record viewResponse =
  resp_TotalRows :: int
  resp_Rows :: "RawMessage list"
  resp_Error :: string
  resp_Reason :: string

text \<open>\<^verbatim>\<open>type viewResults struct\<close>, the iterator; \<open>err = None\<close> is \<^verbatim>\<open>r.err == nil\<close>.\<close>

record viewResults =
  index :: int
  rows :: "RawMessage list"
  totalRows :: int
  err :: "error option"

datatype go_panic = IndexOutOfRange

text \<open>
  \<^verbatim>\<open>json.Unmarshal(row, valuePtr)\<close> for one target shape \<open>'v\<close>: from the bytes of the
  row and the value the target holds, the returned error (\<open>None\<close> is \<^verbatim>\<open>nil\<close>) and
  the value the target holds afterwards. It belongs to \<^verbatim>\<open>encoding/json\<close> and is a
  parameter of the model.
\<close>

type_synonym 'v unmarshal = "string \<Rightarrow> 'v \<Rightarrow> error option \<times> 'v"

subsection \<open>The row iterator\<close>

text \<open>
  \<^verbatim>\<open>func (r *viewResults) NextBytes() []byte\<close>. The result is the returned slice and
  the iterator after the call. \<^verbatim>\<open>r.rows[r.index]\<close> panics when the incremented index
  is negative; it cannot be \<^verbatim>\<open>len(r.rows)\<close> or more, by the test before it.
\<close>

definition viewResults_NextBytes :: "viewResults \<Rightarrow> go_panic + (RawMessage \<times> viewResults)" where
  "viewResults_NextBytes r =
     (if err r \<noteq> None then Inr (None, r)
      else if index r + 1 \<ge> int (length (rows r)) then Inr (None, r)
      else
        (let r' = r\<lparr>index := index r + 1\<rparr> in
         if index r' < 0 then Inl IndexOutOfRange
         else Inr (rows r' ! nat (index r'), r')))"

text \<open>
  \<^verbatim>\<open>func (r *viewResults) Next(valuePtr interface{}) bool\<close>. The result is the returned
  boolean, the iterator after the call and the value of the target after the call.
\<close>

definition viewResults_Next ::
  "'v unmarshal \<Rightarrow> viewResults \<Rightarrow> 'v \<Rightarrow> go_panic + (bool \<times> viewResults \<times> 'v)" where
  "viewResults_Next unm r v =
     (if err r \<noteq> None then Inr (False, r, v)
      else
        (case viewResults_NextBytes r of
           Inl p \<Rightarrow> Inl p
         | Inr (row, r1) \<Rightarrow>
             (case row of
                None \<Rightarrow> Inr (False, r1, v)
              | Some bs \<Rightarrow>
                  (let (e, v') = unm bs v;
                       r2 = r1\<lparr>err := e\<rparr>
                   in if err r2 \<noteq> None then Inr (False, r2, v')
                      else Inr (True, r2, v')))))"

text \<open>\<^verbatim>\<open>func (r *viewResults) Close() error\<close>: reads \<^verbatim>\<open>r.err\<close>, writes nothing.\<close>

definition viewResults_Close :: "viewResults \<Rightarrow> error option" where
  "viewResults_Close r = err r"

text \<open>
  \<^verbatim>\<open>func (r *viewResults) One(valuePtr interface{}) error\<close>. The result is the returned
  error (\<open>None\<close> is \<^verbatim>\<open>nil\<close>), the iterator and the target after the call.
\<close>

definition viewResults_One ::
  "'v unmarshal \<Rightarrow> viewResults \<Rightarrow> 'v \<Rightarrow> go_panic + (error option \<times> viewResults \<times> 'v)" where
  "viewResults_One unm r v =
     (case viewResults_Next unm r v of
        Inl p \<Rightarrow> Inl p
      | Inr (ok, r1, v1) \<Rightarrow>
          if \<not> ok then
            (let e = viewResults_Close r1 in
             if e \<noteq> None then Inr (e, r1, v1)
             else Inr (Some ErrNoResults, r1, v1))
          else
            (let e = viewResults_Close r1 in
             if e \<noteq> None then Inr (None, r1, v1)
             else Inr (None, r1, v1)))"

text \<open>\<^verbatim>\<open>func (r *viewResults) TotalRows() int\<close>\<close>

definition viewResults_TotalRows :: "viewResults \<Rightarrow> int" where
  "viewResults_TotalRows r = totalRows r"

subsection \<open>A caller's sequence of calls\<close>

text \<open>
  The calls a caller can make on the \<^verbatim>\<open>ViewResults\<close> and \<^verbatim>\<open>ViewResultMetrics\<close>
  interfaces, what each returns, and a caller that makes a list of calls one after the
  other on one iterator and one target, collecting what they return. A panic ends the
  sequence.
\<close>

datatype call = CallNext | CallNextBytes | CallOne | CallClose | CallTotalRows

datatype reply =
  RetNext bool | RetNextBytes RawMessage | RetOne "error option" | RetClose "error option"
  | RetTotalRows int

fun do_call ::
  "'v unmarshal \<Rightarrow> call \<Rightarrow> viewResults \<Rightarrow> 'v \<Rightarrow> go_panic + (reply \<times> viewResults \<times> 'v)" where
  "do_call unm CallNext r v =
     (case viewResults_Next unm r v of
        Inl p \<Rightarrow> Inl p | Inr (ok, r', v') \<Rightarrow> Inr (RetNext ok, r', v'))"
| "do_call unm CallNextBytes r v =
     (case viewResults_NextBytes r of
        Inl p \<Rightarrow> Inl p | Inr (row, r') \<Rightarrow> Inr (RetNextBytes row, r', v))"
| "do_call unm CallOne r v =
     (case viewResults_One unm r v of
        Inl p \<Rightarrow> Inl p | Inr (e, r', v') \<Rightarrow> Inr (RetOne e, r', v'))"
| "do_call unm CallClose r v = Inr (RetClose (viewResults_Close r), r, v)"
| "do_call unm CallTotalRows r v = Inr (RetTotalRows (viewResults_TotalRows r), r, v)"

fun do_calls ::
  "'v unmarshal \<Rightarrow> call list \<Rightarrow> viewResults \<Rightarrow> 'v \<Rightarrow> go_panic + (reply list \<times> viewResults \<times> 'v)" where
  "do_calls unm [] r v = Inr ([], r, v)"
| "do_calls unm (c # cs) r v =
     (case do_call unm c r v of
        Inl p \<Rightarrow> Inl p
      | Inr (x, r', v') \<Rightarrow>
          (case do_calls unm cs r' v' of
             Inl p \<Rightarrow> Inl p
           | Inr (xs, r'', v'') \<Rightarrow> Inr (x # xs, r'', v'')))"

text \<open>
  The cursor of an iterator in use: between \<open>-1\<close> (before the first row) and the index
  of the last row.
\<close>

definition wf_cursor :: "viewResults \<Rightarrow> bool" where
  "wf_cursor r = (- 1 \<le> index r \<and> index r < max 0 (int (length (rows r))))"

subsection \<open>Query execution\<close>

text \<open>
  \<^verbatim>\<open>fmt.Sprintf("%d", n)\<close> for an \<^verbatim>\<open>int\<close>: the decimal digits, after a minus sign when
  \<open>n\<close> is negative.
\<close>

definition digit_char :: "nat \<Rightarrow> char" where
  "digit_char d = ''0123456789'' ! (d mod 10)"

fun fmt_nat :: "nat \<Rightarrow> string" where
  "fmt_nat n = (if n < 10 then [digit_char n] else fmt_nat (n div 10) @ [digit_char (n mod 10)])"

declare fmt_nat.simps [simp del]

definition fmt_d :: "int \<Rightarrow> string" where
  "fmt_d n = (if n < 0 then CHR ''-'' # fmt_nat (nat (- n)) else fmt_nat (nat n))"

text \<open>\<^verbatim>\<open>type userPassPair struct { Username string; Password string }\<close>, declared with the
  authenticator.\<close>

record userPassPair =
  Username :: string
  Password :: string

text \<open>
  What this file uses of a \<^verbatim>\<open>*http.Request\<close>: the method and the URL given to
  \<^verbatim>\<open>http.NewRequest\<close>, and the credentials set by \<^verbatim>\<open>SetBasicAuth\<close> (\<open>None\<close> before).
\<close>

record request =
  Method :: string
  URL :: string
  BasicAuth :: "(string \<times> string) option"

text \<open>
  \<^verbatim>\<open>http.NewRequest(method, url, nil)\<close>: an error when \<^verbatim>\<open>net/http\<close> rejects the URL
  (\<open>rejects\<close>, a parameter), otherwise a request with that method and URL and no
  credentials.
\<close>

definition http_NewRequest ::
  "(string \<Rightarrow> error option) \<Rightarrow> string \<Rightarrow> string \<Rightarrow> error + request" where
  "http_NewRequest rejects method url =
     (case rejects url of
        Some e \<Rightarrow> Inl e
      | None \<Rightarrow> Inr \<lparr>Method = method, URL = url, BasicAuth = None\<rparr>)"

text \<open>\<^verbatim>\<open>req.SetBasicAuth(username, password)\<close>\<close>

definition SetBasicAuth :: "request \<Rightarrow> string \<Rightarrow> string \<Rightarrow> request" where
  "SetBasicAuth req username password = req\<lparr>BasicAuth := Some (username, password)\<rparr>"

text \<open>
  \<^verbatim>\<open>resp.Body\<close>, an \<^verbatim>\<open>io.ReadCloser\<close>: the bytes it delivers and the error its
  \<^verbatim>\<open>Close\<close> returns. \<^verbatim>\<open>*http.Response\<close>: the status code and the body.
\<close>

record body =
  content :: string
  close_err :: "error option"

record response =
  StatusCode :: int
  Body :: body

text \<open>
  The effects of a query execution on the outside, in the order they happen:
  the request handed to \<^verbatim>\<open>doHttpWithTimeout\<close> with its timeout, \<^verbatim>\<open>resp.Body.Close()\<close>,
  and a call of \<^verbatim>\<open>logDebugf\<close> with its format and argument.
\<close>

datatype event = DoHttp request int | BodyClose | LogDebugf string error

text \<open>
  What \<^verbatim>\<open>executeViewQuery\<close> reads of the \<^verbatim>\<open>*Bucket\<close> \<^verbatim>\<open>b\<close>: \<^verbatim>\<open>b.name\<close>,
  \<^verbatim>\<open>b.password\<close>, \<^verbatim>\<open>b.viewTimeout\<close>, \<^verbatim>\<open>b.cluster.auth\<close> (\<open>None\<close> is \<^verbatim>\<open>nil\<close>, \<open>Some f\<close>
  an authenticator whose \<^verbatim>\<open>bucketViews\<close> is \<open>f\<close>) and what \<^verbatim>\<open>b.getViewEp()\<close> returns.
\<close>

record Bucket =
  name :: string
  password :: string
  viewTimeout :: int
  cluster_auth :: "(string \<Rightarrow> userPassPair) option"
  getViewEp :: "error + string"

text \<open>
  The functions \<^verbatim>\<open>executeViewQuery\<close> calls outside this file: \<^verbatim>\<open>url.Values.Encode\<close>
  on the options of type \<open>'o\<close>, the URL check of \<^verbatim>\<open>http.NewRequest\<close>,
  \<^verbatim>\<open>doHttpWithTimeout\<close> on \<^verbatim>\<open>b.client.HttpClient()\<close>, and \<^verbatim>\<open>json.NewDecoder(resp.Body).Decode\<close>
  into a \<^verbatim>\<open>viewResponse\<close>.
\<close>

record 'o outside =
  Encode :: "'o \<Rightarrow> string"
  url_rejected :: "string \<Rightarrow> error option"
  doHttpWithTimeout :: "request \<Rightarrow> int \<Rightarrow> error + response"
  Decode :: "string \<Rightarrow> error + viewResponse"

text \<open>
  \<^verbatim>\<open>func (b *Bucket) executeViewQuery(viewType, ddoc, viewName string, options url.Values)\<close>.
  The result is \<open>Inl\<close> the returned error or \<open>Inr\<close> the returned iterator, with the
  effects of the call.
\<close>

definition executeViewQuery ::
  "'o outside \<Rightarrow> Bucket \<Rightarrow> string \<Rightarrow> string \<Rightarrow> string \<Rightarrow> 'o \<Rightarrow> (error + viewResults) \<times> event list" where
  "executeViewQuery X b viewType ddoc viewName options =
     (case getViewEp b of
        Inl e \<Rightarrow> (Inl e, [])
      | Inr capiEp \<Rightarrow>
          (let reqUri = capiEp @ ''/_design/'' @ ddoc @ ''/'' @ viewType @ ''/'' @ viewName
                          @ ''?'' @ Encode X options
           in case http_NewRequest (url_rejected X) ''GET'' reqUri of
                Inl e \<Rightarrow> (Inl e, [])
              | Inr req0 \<Rightarrow>
                  (let req =
                         (case cluster_auth b of
                            Some bucketViews \<Rightarrow>
                              (let userPass = bucketViews (name b)
                               in SetBasicAuth req0 (Username userPass) (Password userPass))
                          | None \<Rightarrow> SetBasicAuth req0 (name b) (password b))
                   in case doHttpWithTimeout X req (viewTimeout b) of
                        Inl e \<Rightarrow> (Inl e, [DoHttp req (viewTimeout b)])
                      | Inr resp \<Rightarrow>
                          (case Decode X (content (Body resp)) of
                             Inl e \<Rightarrow> (Inl e, [DoHttp req (viewTimeout b)])
                           | Inr viewResp \<Rightarrow>
                               (let closing =
                                      BodyClose #
                                      (case close_err (Body resp) of
                                         Some e \<Rightarrow> [LogDebugf ''Failed to close socket (%s)'' e]
                                       | None \<Rightarrow> []);
                                    effects = DoHttp req (viewTimeout b) # closing
                                in if StatusCode resp \<noteq> 200 then
                                     (if resp_Error viewResp \<noteq> '''' then
                                        (Inl (ViewErr \<lparr>Message = resp_Error viewResp,
                                                        Reason = resp_Reason viewResp\<rparr>), effects)
                                      else
                                        (Inl (ViewErr \<lparr>Message = ''HTTP Error'',
                                                        Reason = ''Status code was ''
                                                          @ fmt_d (StatusCode resp) @ ''.''\<rparr>), effects))
                                   else
                                     (Inr \<lparr>index = - 1, rows = resp_Rows viewResp,
                                           totalRows = resp_TotalRows viewResp, err = None\<rparr>,
                                      effects))))))"

text \<open>
  \<^verbatim>\<open>func (b *Bucket) ExecuteViewQuery(q *ViewQuery)\<close> and
  \<^verbatim>\<open>func (b *Bucket) ExecuteSpatialQuery(q *SpatialQuery)\<close>. The method \<^verbatim>\<open>q.getInfo()\<close>
  of the query types is declared outside this file and is the parameter \<open>getInfo\<close>:
  \<open>Inl\<close> its error, or \<open>Inr\<close> the design document, the name and the options.
\<close>

definition ExecuteViewQuery ::
  "'o outside \<Rightarrow> Bucket \<Rightarrow> ('q \<Rightarrow> error + (string \<times> string \<times> 'o)) \<Rightarrow> 'q
     \<Rightarrow> (error + viewResults) \<times> event list" where
  "ExecuteViewQuery X b getInfo q =
     (case getInfo q of
        Inl e \<Rightarrow> (Inl e, [])
      | Inr (ddoc, nm, opts) \<Rightarrow> executeViewQuery X b ''_view'' ddoc nm opts)"

definition ExecuteSpatialQuery ::
  "'o outside \<Rightarrow> Bucket \<Rightarrow> ('q \<Rightarrow> error + (string \<times> string \<times> 'o)) \<Rightarrow> 'q
     \<Rightarrow> (error + viewResults) \<times> event list" where
  "ExecuteSpatialQuery X b getInfo q =
     (case getInfo q of
        Inl e \<Rightarrow> (Inl e, [])
      | Inr (ddoc, nm, opts) \<Rightarrow> executeViewQuery X b ''_spatial'' ddoc nm opts)"

subsection \<open>Example executions\<close>

text \<open>
  A concrete bucket and concrete collaborators, used to run the model: the options are
  key/value pairs, every URL is accepted, the transport answers every request with a
  given status code and body, and the decoders know a handful of bodies and rows.
\<close>

fun example_Encode :: "(string \<times> string) list \<Rightarrow> string" where
  "example_Encode [] = []"
| "example_Encode [(k, v)] = k @ ''='' @ v"
| "example_Encode ((k, v) # kvs) = k @ ''='' @ v @ ''&'' @ example_Encode kvs"

definition example_body_rows :: string where
  \<open>example_body_rows = ''{"total_rows":7,"rows":[1,x,4]}''\<close>

definition example_body_error :: string where
  \<open>example_body_error = ''{"error":"bad_request","reason":"missing parameter"}''\<close>

definition example_Decode :: "string \<Rightarrow> error + viewResponse" where
  "example_Decode s =
     (if s = example_body_rows then
        Inr \<lparr>resp_TotalRows = 7, resp_Rows = [Some ''1'', Some ''x'', Some ''4''],
             resp_Error = '''', resp_Reason = ''''\<rparr>
      else if s = example_body_error then
        Inr \<lparr>resp_TotalRows = 0, resp_Rows = [],
             resp_Error = ''bad_request'', resp_Reason = ''missing parameter''\<rparr>
      else if s = ''{}'' then
        Inr \<lparr>resp_TotalRows = 0, resp_Rows = [], resp_Error = '''', resp_Reason = ''''\<rparr>
      else Inl (OtherError ''invalid character''))"

definition example_outside :: "int \<Rightarrow> string \<Rightarrow> (string \<times> string) list outside" where
  "example_outside status payload =
     \<lparr>Encode = example_Encode,
      url_rejected = (\<lambda>u. None),
      doHttpWithTimeout =
        (\<lambda>req t. Inr \<lparr>StatusCode = status, Body = \<lparr>content = payload, close_err = None\<rparr>\<rparr>),
      Decode = example_Decode\<rparr>"

definition example_bucket :: Bucket where
  "example_bucket =
     \<lparr>name = ''beer'', password = ''secret'', viewTimeout = 75000, cluster_auth = None,
      getViewEp = Inr ''http://10.0.0.1:8092/beer''\<rparr>"

definition example_bucketViews :: "string \<Rightarrow> userPassPair" where
  "example_bucketViews bucket = \<lparr>Username = ''admin-'' @ bucket, Password = ''hunter2''\<rparr>"

definition example_request :: "string \<Rightarrow> (string \<times> string) \<Rightarrow> request" where
  "example_request viewType creds =
     \<lparr>Method = ''GET'',
      URL = ''http://10.0.0.1:8092/beer/_design/dd/'' @ viewType @ ''/by_name?limit=2'',
      BasicAuth = Some creds\<rparr>"

definition example_getInfo ::
  "string \<times> string \<times> (string \<times> string) list
     \<Rightarrow> error + (string \<times> string \<times> (string \<times> string) list)" where
  "example_getInfo q =
     (case q of (ddoc, nm, opts) \<Rightarrow>
        if ddoc = [] \<or> nm = [] then Inl (OtherError ''invalid query'') else Inr (ddoc, nm, opts))"

text \<open>A target of shape \<^verbatim>\<open>int\<close>: the rows \<^verbatim>\<open>1\<close> to \<^verbatim>\<open>5\<close> decode, every other row fails
  and leaves the target as it is.\<close>

definition example_Unmarshal :: "int unmarshal" where
  "example_Unmarshal bs v =
     (if bs = ''1'' then (None, 1) else if bs = ''2'' then (None, 2)
      else if bs = ''3'' then (None, 3) else if bs = ''4'' then (None, 4)
      else if bs = ''5'' then (None, 5)
      else (Some (OtherError ''invalid character''), v))"

definition example_rows :: "RawMessage list" where
  "example_rows = [Some ''1'', Some ''2'', Some ''x'', Some ''4'', Some ''5'']"

section \<open>Properties\<close>

subsection \<open>The iterator, call by call\<close>

lemma NextBytes_sticky: "err r \<noteq> None \<Longrightarrow> viewResults_NextBytes r = Inr (None, r)"
  by (simp add: viewResults_NextBytes_def)

lemma Next_sticky: "err r \<noteq> None \<Longrightarrow> viewResults_Next unm r v = Inr (False, r, v)"
  by (simp add: viewResults_Next_def)

lemma One_sticky: "err r = Some e \<Longrightarrow> viewResults_One unm r v = Inr (Some e, r, v)"
  by (simp add: viewResults_One_def viewResults_Next_def viewResults_Close_def)

lemma NextBytes_exhausted:
  "int (length (rows r)) \<le> index r + 1 \<Longrightarrow> viewResults_NextBytes r = Inr (None, r)"
  by (simp add: viewResults_NextBytes_def)

lemma Next_exhausted:
  "int (length (rows r)) \<le> index r + 1 \<Longrightarrow> viewResults_Next unm r v = Inr (False, r, v)"
  by (simp add: viewResults_Next_def NextBytes_exhausted)

lemma One_exhausted:
  "err r = None \<Longrightarrow> int (length (rows r)) \<le> index r + 1 \<Longrightarrow>
   viewResults_One unm r v = Inr (Some ErrNoResults, r, v)"
  by (simp add: viewResults_One_def Next_exhausted viewResults_Close_def)

lemma NextBytes_advance:
  "err r = None \<Longrightarrow> - 1 \<le> index r \<Longrightarrow> index r + 1 < int (length (rows r)) \<Longrightarrow>
   viewResults_NextBytes r = Inr (rows r ! nat (index r + 1), r\<lparr>index := index r + 1\<rparr>)"
  by (simp add: viewResults_NextBytes_def Let_def)

lemma Next_decode_failure:
  "err r = None \<Longrightarrow> - 1 \<le> index r \<Longrightarrow> index r + 1 < int (length (rows r)) \<Longrightarrow>
   rows r ! nat (index r + 1) = Some bs \<Longrightarrow> unm bs v = (Some e, v') \<Longrightarrow>
   viewResults_Next unm r v = Inr (False, r\<lparr>index := index r + 1, err := Some e\<rparr>, v')"
  by (simp add: viewResults_Next_def NextBytes_advance)

lemma Next_decode_success:
  "err r = None \<Longrightarrow> - 1 \<le> index r \<Longrightarrow> index r + 1 < int (length (rows r)) \<Longrightarrow>
   rows r ! nat (index r + 1) = Some bs \<Longrightarrow> unm bs v = (None, v') \<Longrightarrow>
   viewResults_Next unm r v = Inr (True, r\<lparr>index := index r + 1\<rparr>, v')"
  by (simp add: viewResults_Next_def NextBytes_advance)

subsection \<open>The cursor stays in range, and no call panics\<close>

lemma NextBytes_wf:
  "wf_cursor r \<Longrightarrow>
   \<exists>row r'. viewResults_NextBytes r = Inr (row, r') \<and> wf_cursor r' \<and> rows r' = rows r
     \<and> totalRows r' = totalRows r"
  by (auto simp add: viewResults_NextBytes_def wf_cursor_def Let_def)

lemma Next_wf:
  "wf_cursor r \<Longrightarrow>
   \<exists>ok r' v'. viewResults_Next unm r v = Inr (ok, r', v') \<and> wf_cursor r' \<and> rows r' = rows r
     \<and> totalRows r' = totalRows r"
  using NextBytes_wf [of r]
  by (auto simp add: viewResults_Next_def wf_cursor_def Let_def split: option.splits prod.splits)

lemma One_wf:
  "wf_cursor r \<Longrightarrow>
   \<exists>e r' v'. viewResults_One unm r v = Inr (e, r', v') \<and> wf_cursor r' \<and> rows r' = rows r
     \<and> totalRows r' = totalRows r"
  using Next_wf [of r unm v]
  by (auto simp add: viewResults_One_def Let_def)

lemma wf_cursor_step:
  "wf_cursor r \<Longrightarrow>
   \<exists>x r' v'. do_call unm c r v = Inr (x, r', v') \<and> wf_cursor r' \<and> rows r' = rows r
     \<and> totalRows r' = totalRows r"
  using NextBytes_wf [of r] Next_wf [of r unm v] One_wf [of r unm v]
  by (cases c) auto

lemma wf_cursor_steps:
  "wf_cursor r \<Longrightarrow>
   \<exists>xs r' v'. do_calls unm cs r v = Inr (xs, r', v') \<and> wf_cursor r' \<and> rows r' = rows r
     \<and> totalRows r' = totalRows r"
proof (induction cs arbitrary: r v)
  case Nil
  then show ?case by simp
next
  case (Cons c cs)
  from wf_cursor_step [OF Cons.prems, of unm c v]
  obtain x r1 v1 where c: "do_call unm c r v = Inr (x, r1, v1)" and wf: "wf_cursor r1"
    and eq: "rows r1 = rows r" "totalRows r1 = totalRows r"
    by blast
  from Cons.IH [OF wf, of v1]
  obtain xs r2 v2 where cs: "do_calls unm cs r1 v1 = Inr (xs, r2, v2)" and wf2: "wf_cursor r2"
    and eq2: "rows r2 = rows r1" "totalRows r2 = totalRows r1"
    by blast
  show ?case using c cs wf2 eq eq2 by simp
qed

text \<open>No call writes \<^verbatim>\<open>r.totalRows\<close>, whatever the iterator.\<close>

lemma NextBytes_totalRows:
  "viewResults_NextBytes r = Inr (row, r') \<Longrightarrow> totalRows r' = totalRows r"
  by (auto simp add: viewResults_NextBytes_def Let_def split: if_splits)

lemma Next_totalRows:
  "viewResults_Next unm r v = Inr (ok, r', v') \<Longrightarrow> totalRows r' = totalRows r"
  by (auto simp add: viewResults_Next_def Let_def
        split: if_splits sum.splits option.splits prod.splits dest: NextBytes_totalRows)

lemma One_totalRows:
  "viewResults_One unm r v = Inr (e, r', v') \<Longrightarrow> totalRows r' = totalRows r"
  by (auto simp add: viewResults_One_def Let_def
        split: if_splits sum.splits prod.splits dest: Next_totalRows)

lemma do_call_totalRows:
  "do_call unm c r v = Inr (x, r', v') \<Longrightarrow> totalRows r' = totalRows r"
  by (cases c)
     (auto split: sum.splits prod.splits
        dest: NextBytes_totalRows Next_totalRows One_totalRows)

lemma do_calls_totalRows:
  "do_calls unm cs r v = Inr (xs, r', v') \<Longrightarrow> totalRows r' = totalRows r"
proof (induction cs arbitrary: r v xs)
  case Nil
  then show ?case by simp
next
  case (Cons c cs)
  from Cons.prems obtain x r1 v1 ys
    where c: "do_call unm c r v = Inr (x, r1, v1)"
      and cs: "do_calls unm cs r1 v1 = Inr (ys, r', v')"
    by (auto split: sum.splits prod.splits)
  from Cons.IH [OF cs] do_call_totalRows [OF c] show ?case by simp
qed

subsection \<open>Sequences of calls\<close>

lemma do_call_sticky:
  "err r = Some e \<Longrightarrow>
   do_call unm c r v =
     Inr (case c of CallNext \<Rightarrow> RetNext False | CallNextBytes \<Rightarrow> RetNextBytes None
          | CallOne \<Rightarrow> RetOne (Some e) | CallClose \<Rightarrow> RetClose (Some e)
          | CallTotalRows \<Rightarrow> RetTotalRows (totalRows r), r, v)"
  by (cases c)
     (simp_all add: Next_sticky NextBytes_sticky One_sticky viewResults_Close_def
        viewResults_TotalRows_def)

lemma do_calls_sticky:
  "err r = Some e \<Longrightarrow>
   do_calls unm cs r v =
     Inr (map (\<lambda>c. case c of CallNext \<Rightarrow> RetNext False | CallNextBytes \<Rightarrow> RetNextBytes None
          | CallOne \<Rightarrow> RetOne (Some e) | CallClose \<Rightarrow> RetClose (Some e)
          | CallTotalRows \<Rightarrow> RetTotalRows (totalRows r)) cs, r, v)"
  by (induction cs) (simp_all add: do_call_sticky)

lemma do_calls_exhausted:
  "err r = None \<Longrightarrow> int (length (rows r)) \<le> index r + 1 \<Longrightarrow>
   do_calls unm cs r v =
     Inr (map (\<lambda>c. case c of CallNext \<Rightarrow> RetNext False | CallNextBytes \<Rightarrow> RetNextBytes None
          | CallOne \<Rightarrow> RetOne (Some ErrNoResults) | CallClose \<Rightarrow> RetClose None
          | CallTotalRows \<Rightarrow> RetTotalRows (totalRows r)) cs, r, v)"
proof (induction cs)
  case Nil
  then show ?case by simp
next
  case (Cons c cs)
  then show ?case
    by (cases c)
       (simp_all add: Next_exhausted NextBytes_exhausted One_exhausted viewResults_Close_def
          viewResults_TotalRows_def)
qed

lemma Next_run:
  "err r = None \<Longrightarrow> rows r = map Some bss \<Longrightarrow> index r = int k - 1 \<Longrightarrow> k + n \<le> length bss \<Longrightarrow>
   \<forall>bs\<in>set bss. \<forall>v. fst (unm bs v) = None \<Longrightarrow>
   do_calls unm (replicate n CallNext) r v =
     Inr (replicate n (RetNext True), r\<lparr>index := int (k + n) - 1\<rparr>,
          foldl (\<lambda>v bs. snd (unm bs v)) v (take n (drop k bss)))"
proof (induction n arbitrary: r v k)
  case 0
  then show ?case by simp
next
  case (Suc n)
  let ?bs = "bss ! k"
  let ?r1 = "r\<lparr>index := index r + 1\<rparr>"
  have k: "k < length bss" using Suc.prems by simp
  then have "?bs \<in> set bss" by simp
  with Suc.prems have ok: "unm ?bs v = (None, snd (unm ?bs v))"
    by (metis prod.collapse)
  have row: "rows r ! nat (index r + 1) = Some ?bs"
    using Suc.prems k by simp
  have step: "viewResults_Next unm r v = Inr (True, ?r1, snd (unm ?bs v))"
    using Suc.prems k row ok Next_decode_success [of r "bss ! k" unm v "snd (unm (bss ! k) v)"]
    by simp
  have IH: "do_calls unm (replicate n CallNext) ?r1 (snd (unm ?bs v)) =
     Inr (replicate n (RetNext True), ?r1\<lparr>index := int (Suc k + n) - 1\<rparr>,
          foldl (\<lambda>v bs. snd (unm bs v)) (snd (unm ?bs v)) (take n (drop (Suc k) bss)))"
    using Suc.prems by (intro Suc.IH) simp_all
  have dr: "drop k bss = ?bs # drop (Suc k) bss"
    using k by (simp add: Cons_nth_drop_Suc)
  show ?case using step IH by (simp add: dr)
qed

lemma NextBytes_run:
  "err r = None \<Longrightarrow> index r = int k - 1 \<Longrightarrow> k + n \<le> length (rows r) \<Longrightarrow>
   do_calls unm (replicate n CallNextBytes) r v =
     Inr (map RetNextBytes (take n (drop k (rows r))), r\<lparr>index := int (k + n) - 1\<rparr>, v)"
proof (induction n arbitrary: r k)
  case 0
  then show ?case by simp
next
  case (Suc n)
  let ?r1 = "r\<lparr>index := index r + 1\<rparr>"
  have k: "k < length (rows r)" using Suc.prems by simp
  have step: "viewResults_NextBytes r = Inr (rows r ! k, ?r1)"
    using Suc.prems k NextBytes_advance [of r] by simp
  have IH: "do_calls unm (replicate n CallNextBytes) ?r1 v =
     Inr (map RetNextBytes (take n (drop (Suc k) (rows ?r1))), ?r1\<lparr>index := int (Suc k + n) - 1\<rparr>, v)"
    using Suc.prems by (intro Suc.IH) simp_all
  have dr: "drop k (rows r) = rows r ! k # drop (Suc k) (rows r)"
    using k by (simp add: Cons_nth_drop_Suc)
  show ?case using step IH by (simp add: dr)
qed

subsection \<open>Query execution, stage by stage\<close>

text \<open>\<^verbatim>\<open>%d\<close> on some status codes and on a negative number.\<close>

lemma fmt_d_examples:
  "fmt_d 404 = ''404''" "fmt_d 200 = ''200''" "fmt_d 0 = ''0''" "fmt_d (- 17) = ''-17''"
  by (simp_all add: fmt_d_def fmt_nat.simps digit_char_def)

text \<open>The digits of \<open>fmt_nat n\<close>, read back in base ten, give \<open>n\<close>.\<close>

lemma digit_char_value:
  assumes "d < 10"
  shows "of_char (digit_char d) = (48 + d :: nat)"
proof -
  from assms have "d \<in> {0, 1, 2, 3, 4, 5, 6, 7, 8, 9}" by auto
  then show ?thesis
    by (auto simp add: digit_char_def)
qed

lemma fmt_nat_value:
  "foldl (\<lambda>a c. 10 * a + (of_char c - 48)) 0 (fmt_nat n) = n"
proof (induction n rule: fmt_nat.induct)
  case (1 n)
  show ?case
  proof (cases "n < 10")
    case True
    then show ?thesis
      by (subst fmt_nat.simps) (simp add: digit_char_value)
  next
    case False
    with 1 have "foldl (\<lambda>a c. 10 * a + (of_char c - 48)) 0 (fmt_nat (n div 10)) = n div 10"
      by simp
    with False show ?thesis
      by (subst fmt_nat.simps) (simp add: digit_char_value)
  qed
qed

text \<open>
  The request that reaches the transport: the one built from the endpoint, the arguments
  and the credentials, and only when the endpoint was found and the URL accepted.
\<close>

lemma executeViewQuery_dispatched:
  assumes "DoHttp req t \<in> set (snd (executeViewQuery X b viewType ddoc viewName options))"
  shows "\<exists>capiEp. getViewEp b = Inr capiEp \<and> t = viewTimeout b \<and>
           url_rejected X (URL req) = None \<and>
           req = \<lparr>Method = ''GET'',
                  URL = capiEp @ ''/_design/'' @ ddoc @ ''/'' @ viewType @ ''/'' @ viewName
                          @ ''?'' @ Encode X options,
                  BasicAuth = Some (case cluster_auth b of
                                      Some bucketViews \<Rightarrow>
                                        (Username (bucketViews (name b)), Password (bucketViews (name b)))
                                    | None \<Rightarrow> (name b, password b))\<rparr>"
  using assms
  by (auto simp add: executeViewQuery_def http_NewRequest_def SetBasicAuth_def Let_def
        split: sum.splits option.splits if_splits)

text \<open>What the call returns and does once the transport has answered and the envelope
  has been decoded.\<close>

lemma executeViewQuery_answered:
  assumes "DoHttp req t \<in> set (snd (executeViewQuery X b viewType ddoc viewName options))"
    and "doHttpWithTimeout X req t = Inr resp"
    and "Decode X (content (Body resp)) = Inr viewResp"
  shows "executeViewQuery X b viewType ddoc viewName options =
           (if StatusCode resp \<noteq> 200 then
              (if resp_Error viewResp \<noteq> '''' then
                 Inl (ViewErr \<lparr>Message = resp_Error viewResp, Reason = resp_Reason viewResp\<rparr>)
               else
                 Inl (ViewErr \<lparr>Message = ''HTTP Error'',
                                 Reason = ''Status code was '' @ fmt_d (StatusCode resp) @ ''.''\<rparr>))
            else
              Inr \<lparr>index = - 1, rows = resp_Rows viewResp,
                    totalRows = resp_TotalRows viewResp, err = None\<rparr>,
            DoHttp req t # BodyClose #
              (case close_err (Body resp) of
                 Some e \<Rightarrow> [LogDebugf ''Failed to close socket (%s)'' e]
               | None \<Rightarrow> []))"
proof -
  from executeViewQuery_dispatched [OF assms(1)]
  obtain capiEp where ep: "getViewEp b = Inr capiEp" and t: "t = viewTimeout b"
    and ok: "url_rejected X (URL req) = None"
    and req: "req = \<lparr>Method = ''GET'',
                  URL = capiEp @ ''/_design/'' @ ddoc @ ''/'' @ viewType @ ''/'' @ viewName
                          @ ''?'' @ Encode X options,
                  BasicAuth = Some (case cluster_auth b of
                                      Some bucketViews \<Rightarrow>
                                        (Username (bucketViews (name b)), Password (bucketViews (name b)))
                                    | None \<Rightarrow> (name b, password b))\<rparr>"
    by blast
  have ok': "url_rejected X (capiEp @ ''/_design/'' @ ddoc @ ''/'' @ viewType @ ''/'' @ viewName
                          @ ''?'' @ Encode X options) = None"
    using ok req by simp
  show ?thesis
  proof (cases "cluster_auth b")
    case None
    with assms(2,3) ep t ok' req show ?thesis
      by (simp add: executeViewQuery_def http_NewRequest_def SetBasicAuth_def Let_def)
  next
    case (Some f)
    with assms(2,3) ep t ok' req show ?thesis
      by (simp add: executeViewQuery_def http_NewRequest_def SetBasicAuth_def Let_def)
  qed
qed

text \<open>An iterator is returned with its cursor before the first row and no error.\<close>

lemma executeViewQuery_iterator:
  "fst (executeViewQuery X b viewType ddoc viewName options) = Inr r \<Longrightarrow>
   index r = - 1 \<and> err r = None \<and> wf_cursor r"
  by (auto simp add: executeViewQuery_def http_NewRequest_def Let_def wf_cursor_def
        split: sum.splits option.splits if_splits)

text \<open>The example transport is reached with the example request.\<close>

lemma example_dispatch:
  "snd (executeViewQuery (example_outside status payload) example_bucket viewType ''dd''
          ''by_name'' [(''limit'', ''2'')])
   = DoHttp (example_request viewType (''beer'', ''secret'')) 75000 #
       (case example_Decode payload of Inl e \<Rightarrow> [] | Inr viewResp \<Rightarrow> [BodyClose])"
  by (simp add: executeViewQuery_def example_outside_def example_bucket_def
        example_request_def http_NewRequest_def SetBasicAuth_def Let_def split: sum.splits)

text \<open>With an endpoint and an accepted URL, exactly one request reaches the transport.\<close>

lemma executeViewQuery_dispatches:
  assumes "getViewEp b = Inr capiEp"
    and "url_rejected X (capiEp @ ''/_design/'' @ ddoc @ ''/'' @ viewType @ ''/'' @ viewName
                          @ ''?'' @ Encode X options) = None"
  shows "\<exists>req rest. snd (executeViewQuery X b viewType ddoc viewName options)
                      = DoHttp req (viewTimeout b) # rest \<and>
                    (\<forall>req' t'. DoHttp req' t' \<notin> set rest)"
  using assms
  by (auto simp add: executeViewQuery_def http_NewRequest_def Let_def
        split: sum.splits option.splits)

text \<open>The body is closed exactly when the transport has answered and the envelope has
  been decoded.\<close>

lemma executeViewQuery_close_iff:
  "BodyClose \<in> set (snd (executeViewQuery X b viewType ddoc viewName options)) \<longleftrightarrow>
   (\<exists>req resp viewResp.
      DoHttp req (viewTimeout b) \<in> set (snd (executeViewQuery X b viewType ddoc viewName options)) \<and>
      doHttpWithTimeout X req (viewTimeout b) = Inr resp \<and>
      Decode X (content (Body resp)) = Inr viewResp)"
  by (auto simp add: executeViewQuery_def http_NewRequest_def Let_def
        split: sum.splits option.splits)

section \<open>The claims\<close>

text \<open>
  Claim C1, as the code has it. When the transport has answered the dispatched request,
  the envelope has been decoded, the status code is not 200 and the envelope's
  \<^verbatim>\<open>error\<close> field is not empty, \<^verbatim>\<open>executeViewQuery\<close> fails with a \<^verbatim>\<open>viewError\<close> whose
  message is the envelope's \<^verbatim>\<open>error\<close> and whose reason is the envelope's \<^verbatim>\<open>reason\<close>:
  the envelope's error comes before the "HTTP Error" made from the status code.
\<close>

theorem envelope_error_precedes_status_error:
  assumes "DoHttp req t \<in> set (snd (executeViewQuery X b viewType ddoc viewName options))"
    and "doHttpWithTimeout X req t = Inr resp"
    and "Decode X (content (Body resp)) = Inr viewResp"
    and "StatusCode resp \<noteq> 200"
    and "resp_Error viewResp \<noteq> ''''"
  shows "fst (executeViewQuery X b viewType ddoc viewName options) =
           Inl (ViewErr \<lparr>Message = resp_Error viewResp, Reason = resp_Reason viewResp\<rparr>)"
  using executeViewQuery_answered [OF assms(1-3)] assms(4,5) by simp

text \<open>The hypotheses hold for a status 500 with the body
  \<^verbatim>\<open>{"error":"bad_request","reason":"missing parameter"}\<close>.\<close>

theorem envelope_error_precedes_status_error_witness:
  "DoHttp (example_request ''_view'' (''beer'', ''secret'')) 75000
     \<in> set (snd (executeViewQuery (example_outside 500 example_body_error) example_bucket
                   ''_view'' ''dd'' ''by_name'' [(''limit'', ''2'')])) \<and>
   doHttpWithTimeout (example_outside 500 example_body_error)
       (example_request ''_view'' (''beer'', ''secret'')) 75000
     = Inr \<lparr>StatusCode = 500, Body = \<lparr>content = example_body_error, close_err = None\<rparr>\<rparr> \<and>
   Decode (example_outside 500 example_body_error) example_body_error
     = Inr \<lparr>resp_TotalRows = 0, resp_Rows = [], resp_Error = ''bad_request'',
            resp_Reason = ''missing parameter''\<rparr> \<and>
   fst (executeViewQuery (example_outside 500 example_body_error) example_bucket
          ''_view'' ''dd'' ''by_name'' [(''limit'', ''2'')])
     = Inl (ViewErr \<lparr>Message = ''bad_request'', Reason = ''missing parameter''\<rparr>)"
proof -
  let ?X = "example_outside 500 example_body_error"
  let ?resp = "\<lparr>StatusCode = 500, Body = \<lparr>content = example_body_error, close_err = None\<rparr>\<rparr>"
  let ?env = "\<lparr>resp_TotalRows = 0, resp_Rows = [], resp_Error = ''bad_request'',
            resp_Reason = ''missing parameter''\<rparr>"
  have h1: "DoHttp (example_request ''_view'' (''beer'', ''secret'')) 75000
     \<in> set (snd (executeViewQuery ?X example_bucket
                   ''_view'' ''dd'' ''by_name'' [(''limit'', ''2'')]))"
    by (simp add: example_dispatch)
  have h2: "doHttpWithTimeout ?X (example_request ''_view'' (''beer'', ''secret'')) 75000 = Inr ?resp"
    by (simp add: example_outside_def)
  have h3: "Decode ?X (content (Body ?resp)) = Inr ?env"
    by (simp add: example_outside_def example_Decode_def example_body_error_def
          example_body_rows_def)
  have h4: "StatusCode ?resp \<noteq> 200" by simp
  have h5: "resp_Error ?env \<noteq> ''''" by simp
  from envelope_error_precedes_status_error [OF h1 h2 h3 h4 h5] h1 h2 h3
  show ?thesis by simp
qed

text \<open>
  Claim C1 as stated, "also at status 200", fails: the envelope's error is read inside the
  test \<^verbatim>\<open>resp.StatusCode != 200\<close> only. With status 200 and the same body the call returns
  an iterator (over no rows) and no error.
\<close>

theorem envelope_error_at_status_200:
  "example_Decode example_body_error =
     Inr \<lparr>resp_TotalRows = 0, resp_Rows = [], resp_Error = ''bad_request'',
          resp_Reason = ''missing parameter''\<rparr> \<and>
   fst (executeViewQuery (example_outside 200 example_body_error) example_bucket ''_view''
          ''dd'' ''by_name'' [(''limit'', ''2'')])
     = Inr \<lparr>index = - 1, rows = [], totalRows = 0, err = None\<rparr>"
  by (simp add: executeViewQuery_def example_outside_def example_bucket_def
        example_Decode_def example_body_error_def example_body_rows_def
        http_NewRequest_def SetBasicAuth_def Let_def)

text \<open>
  Claim C2 says that the response body is closed on every way out once the response has
  arrived, also when the envelope cannot be decoded. The code returns the decoder's error
  before it reaches \<^verbatim>\<open>resp.Body.Close()\<close>: for a body that is no envelope, the effects of
  the call are the request and nothing else.
\<close>

theorem body_left_open_on_decode_failure:
  "executeViewQuery (example_outside 200 ''<html>'') example_bucket ''_view'' ''dd''
     ''by_name'' [(''limit'', ''2'')]
   = (Inl (OtherError ''invalid character''),
      [DoHttp (example_request ''_view'' (''beer'', ''secret'')) 75000])"
  by (simp add: executeViewQuery_def example_outside_def example_bucket_def
        example_Decode_def example_body_error_def example_body_rows_def example_request_def
        http_NewRequest_def SetBasicAuth_def Let_def)

text \<open>
  Claim C3, the sticky error. On an iterator whose \<^verbatim>\<open>err\<close> is set to \<open>e\<close>, \<^verbatim>\<open>Next\<close>
  returns false and \<^verbatim>\<open>NextBytes\<close> returns nil, both leaving the iterator (and the target)
  as they were, \<^verbatim>\<open>Close\<close> returns \<open>e\<close>, and any sequence of calls returns no row and
  leaves the iterator as it was. And a row that fails to decode sets \<^verbatim>\<open>err\<close> to the
  decoder's error, with \<^verbatim>\<open>Next\<close> returning false: from then on the first part applies,
  so the rows behind it are never returned.
\<close>

theorem sticky_error:
  "(err r = Some e \<longrightarrow>
      viewResults_Next unm r v = Inr (False, r, v) \<and>
      viewResults_NextBytes r = Inr (None, r) \<and>
      viewResults_Close r = Some e \<and>
      do_calls unm cs r v =
        Inr (map (\<lambda>c. case c of CallNext \<Rightarrow> RetNext False | CallNextBytes \<Rightarrow> RetNextBytes None
                   | CallOne \<Rightarrow> RetOne (Some e) | CallClose \<Rightarrow> RetClose (Some e)
                   | CallTotalRows \<Rightarrow> RetTotalRows (totalRows r)) cs, r, v)) \<and>
   (err r0 = None \<and> - 1 \<le> index r0 \<and> index r0 + 1 < int (length (rows r0)) \<and>
    rows r0 ! nat (index r0 + 1) = Some bs \<and> unm bs v0 = (Some e0, v1) \<longrightarrow>
      viewResults_Next unm r0 v0 = Inr (False, r0\<lparr>index := index r0 + 1, err := Some e0\<rparr>, v1))"
  by (simp add: Next_sticky NextBytes_sticky viewResults_Close_def do_calls_sticky
        Next_decode_failure)

text \<open>Five rows, the third of which does not decode.\<close>

theorem sticky_error_witness:
  "err \<lparr>index = 1, rows = example_rows, totalRows = 5, err = None\<rparr> = None \<and>
   example_rows ! 2 = Some ''x'' \<and>
   example_Unmarshal ''x'' 2 = (Some (OtherError ''invalid character''), 2) \<and>
   viewResults_Next example_Unmarshal \<lparr>index = 1, rows = example_rows, totalRows = 5, err = None\<rparr> 2
     = Inr (False, \<lparr>index = 2, rows = example_rows, totalRows = 5,
                    err = Some (OtherError ''invalid character'')\<rparr>, 2) \<and>
   do_calls example_Unmarshal [CallNext, CallNextBytes, CallNext, CallClose]
       \<lparr>index = 2, rows = example_rows, totalRows = 5,
        err = Some (OtherError ''invalid character'')\<rparr> 2
     = Inr ([RetNext False, RetNextBytes None, RetNext False,
             RetClose (Some (OtherError ''invalid character''))],
            \<lparr>index = 2, rows = example_rows, totalRows = 5,
             err = Some (OtherError ''invalid character'')\<rparr>, 2)"
  using sticky_error [of "\<lparr>index = 2, rows = example_rows, totalRows = 5,
             err = Some (OtherError ''invalid character'')\<rparr>" "OtherError ''invalid character''"
           example_Unmarshal 2 "[CallNext, CallNextBytes, CallNext, CallClose]"
           "\<lparr>index = 1, rows = example_rows, totalRows = 5, err = None\<rparr>" "''x''" 2
           "OtherError ''invalid character''" 2]
  by (simp add: example_rows_def example_Unmarshal_def)

text \<open>
  Claim C4. Let every row of the envelope be non-nil and decode into the target. On the
  iterator made from the envelope, the first \<open>k\<close> calls of \<^verbatim>\<open>Next\<close> (\<open>k\<close> up to the
  number \<open>N\<close> of rows) all return true and decode the first \<open>k\<close> rows in the envelope's
  order into the target; \<open>k\<close> calls of \<^verbatim>\<open>NextBytes\<close> return the first \<open>k\<close> rows in that
  order. After \<open>N\<close> of them the cursor is on the last row, and every further call
  returns false, nil or \<^verbatim>\<open>ErrNoResults\<close> and changes neither iterator nor target.
\<close>

theorem rows_in_response_order:
  assumes "\<forall>bs\<in>set bss. \<forall>v. fst (unm bs v) = None" and "k \<le> length bss"
  shows "do_calls unm (replicate k CallNext)
           \<lparr>index = - 1, rows = map Some bss, totalRows = n, err = None\<rparr> v
         = Inr (replicate k (RetNext True),
                \<lparr>index = int k - 1, rows = map Some bss, totalRows = n, err = None\<rparr>,
                foldl (\<lambda>v bs. snd (unm bs v)) v (take k bss)) \<and>
         do_calls unm (replicate k CallNextBytes)
           \<lparr>index = - 1, rows = map Some bss, totalRows = n, err = None\<rparr> v
         = Inr (map RetNextBytes (take k (map Some bss)),
                \<lparr>index = int k - 1, rows = map Some bss, totalRows = n, err = None\<rparr>, v) \<and>
         do_calls unm cs
           \<lparr>index = int (length bss) - 1, rows = map Some bss, totalRows = n, err = None\<rparr> v'
         = Inr (map (\<lambda>c. case c of CallNext \<Rightarrow> RetNext False | CallNextBytes \<Rightarrow> RetNextBytes None
                   | CallOne \<Rightarrow> RetOne (Some ErrNoResults) | CallClose \<Rightarrow> RetClose None
                   | CallTotalRows \<Rightarrow> RetTotalRows n) cs,
                \<lparr>index = int (length bss) - 1, rows = map Some bss, totalRows = n, err = None\<rparr>, v')"
proof -
  let ?r = "\<lparr>index = - 1, rows = map Some bss, totalRows = n, err = None\<rparr>"
  have a: "do_calls unm (replicate k CallNext) ?r v
         = Inr (replicate k (RetNext True), ?r\<lparr>index := int (0 + k) - 1\<rparr>,
                foldl (\<lambda>v bs. snd (unm bs v)) v (take k (drop 0 bss)))"
    using assms by (intro Next_run) simp_all
  have b: "do_calls unm (replicate k CallNextBytes) ?r v
         = Inr (map RetNextBytes (take k (drop 0 (rows ?r))), ?r\<lparr>index := int (0 + k) - 1\<rparr>, v)"
    using assms by (intro NextBytes_run) simp_all
  have c: "do_calls unm cs
           \<lparr>index = int (length bss) - 1, rows = map Some bss, totalRows = n, err = None\<rparr> v'
         = Inr (map (\<lambda>c. case c of CallNext \<Rightarrow> RetNext False | CallNextBytes \<Rightarrow> RetNextBytes None
                   | CallOne \<Rightarrow> RetOne (Some ErrNoResults) | CallClose \<Rightarrow> RetClose None
                   | CallTotalRows \<Rightarrow> RetTotalRows n) cs,
                \<lparr>index = int (length bss) - 1, rows = map Some bss, totalRows = n, err = None\<rparr>, v')"
    using do_calls_exhausted [of "\<lparr>index = int (length bss) - 1, rows = map Some bss,
        totalRows = n, err = None\<rparr>" unm cs v'] by simp
  from a b c show ?thesis by simp
qed

text \<open>Three rows that decode.\<close>

theorem rows_in_response_order_witness:
  "(\<forall>v. fst (example_Unmarshal ''1'' v) = None) \<and>
   (\<forall>v. fst (example_Unmarshal ''2'' v) = None) \<and>
   (\<forall>v. fst (example_Unmarshal ''4'' v) = None) \<and>
   do_calls example_Unmarshal [CallNext, CallNext, CallNext]
       \<lparr>index = - 1, rows = [Some ''1'', Some ''2'', Some ''4''], totalRows = 9, err = None\<rparr> 0
     = Inr ([RetNext True, RetNext True, RetNext True],
            \<lparr>index = 2, rows = [Some ''1'', Some ''2'', Some ''4''], totalRows = 9, err = None\<rparr>, 4) \<and>
   do_calls example_Unmarshal [CallNextBytes, CallNextBytes, CallNextBytes]
       \<lparr>index = - 1, rows = [Some ''1'', Some ''2'', Some ''4''], totalRows = 9, err = None\<rparr> 0
     = Inr ([RetNextBytes (Some ''1''), RetNextBytes (Some ''2''), RetNextBytes (Some ''4'')],
            \<lparr>index = 2, rows = [Some ''1'', Some ''2'', Some ''4''], totalRows = 9, err = None\<rparr>, 0) \<and>
   do_calls example_Unmarshal [CallNextBytes, CallNext, CallNextBytes]
       \<lparr>index = 2, rows = [Some ''1'', Some ''2'', Some ''4''], totalRows = 9, err = None\<rparr> 4
     = Inr ([RetNextBytes None, RetNext False, RetNextBytes None],
            \<lparr>index = 2, rows = [Some ''1'', Some ''2'', Some ''4''], totalRows = 9, err = None\<rparr>, 4)"
proof -
  have h: "\<forall>bs\<in>set [''1'', ''2'', ''4'']. \<forall>v. fst (example_Unmarshal bs v) = None"
    by (simp add: example_Unmarshal_def)
  have k: "3 \<le> length [''1'', ''2'', ''4'']" by simp
  from rows_in_response_order [OF h k, of 9 0 "[CallNextBytes, CallNext, CallNextBytes]" 4] h
  show ?thesis
    by (simp add: viewResults_Next_def viewResults_NextBytes_def example_Unmarshal_def Let_def)
qed

text \<open>
  Claim C5. \<^verbatim>\<open>One\<close> on an iterator over no rows returns \<^verbatim>\<open>ErrNoResults\<close> and changes
  nothing; a second \<^verbatim>\<open>One\<close> does the same; \<^verbatim>\<open>ErrNoResults\<close> is no \<^verbatim>\<open>viewError\<close>. \<^verbatim>\<open>One\<close>
  on an iterator over one row that decodes returns nil, with the decoded value in the
  target.
\<close>

theorem One_on_empty_and_single:
  "viewResults_One unm \<lparr>index = - 1, rows = [], totalRows = n, err = None\<rparr> v
     = Inr (Some ErrNoResults, \<lparr>index = - 1, rows = [], totalRows = n, err = None\<rparr>, v) \<and>
   do_calls unm [CallOne, CallOne] \<lparr>index = - 1, rows = [], totalRows = n, err = None\<rparr> v
     = Inr ([RetOne (Some ErrNoResults), RetOne (Some ErrNoResults)],
            \<lparr>index = - 1, rows = [], totalRows = n, err = None\<rparr>, v) \<and>
   ErrNoResults \<noteq> ViewErr ve \<and>
   (unm bs v = (None, v') \<longrightarrow>
      viewResults_One unm \<lparr>index = - 1, rows = [Some bs], totalRows = n, err = None\<rparr> v
        = Inr (None, \<lparr>index = 0, rows = [Some bs], totalRows = n, err = None\<rparr>, v'))"
proof -
  let ?r = "\<lparr>index = - 1, rows = [], totalRows = n, err = None\<rparr>"
  have one: "viewResults_One unm ?r v = Inr (Some ErrNoResults, ?r, v)" for v
    by (rule One_exhausted) simp_all
  have single: "viewResults_One unm \<lparr>index = - 1, rows = [Some bs], totalRows = n, err = None\<rparr> v
        = Inr (None, \<lparr>index = 0, rows = [Some bs], totalRows = n, err = None\<rparr>, v')"
    if "unm bs v = (None, v')"
    using that
    by (simp add: viewResults_One_def viewResults_Next_def viewResults_NextBytes_def
          viewResults_Close_def Let_def)
  show ?thesis using one single by simp
qed

text \<open>One row \<^verbatim>\<open>4\<close>, and no row.\<close>

theorem One_on_empty_and_single_witness:
  "example_Unmarshal ''4'' 0 = (None, 4) \<and>
   viewResults_One example_Unmarshal \<lparr>index = - 1, rows = [Some ''4''], totalRows = 1, err = None\<rparr> 0
     = Inr (None, \<lparr>index = 0, rows = [Some ''4''], totalRows = 1, err = None\<rparr>, 4) \<and>
   viewResults_One example_Unmarshal \<lparr>index = - 1, rows = [], totalRows = 0, err = None\<rparr> 0
     = Inr (Some ErrNoResults, \<lparr>index = - 1, rows = [], totalRows = 0, err = None\<rparr>, 0)"
  using One_on_empty_and_single [where unm = example_Unmarshal and v = 0 and bs = "''4''"
      and v' = 4 and n = 1]
    One_on_empty_and_single [where unm = example_Unmarshal and v = 0 and bs = "''4''"
      and v' = 4 and n = 0]
  by (simp add: example_Unmarshal_def)

text \<open>
  Claim C6. When the transport has answered the dispatched request, the envelope has
  been decoded, the status code is not 200 and the envelope's \<^verbatim>\<open>error\<close> field is empty,
  \<^verbatim>\<open>executeViewQuery\<close> fails with the \<^verbatim>\<open>viewError\<close> of message "HTTP Error" and reason
  "Status code was <code>.", the code in decimal.
\<close>

theorem http_status_error:
  assumes "DoHttp req t \<in> set (snd (executeViewQuery X b viewType ddoc viewName options))"
    and "doHttpWithTimeout X req t = Inr resp"
    and "Decode X (content (Body resp)) = Inr viewResp"
    and "StatusCode resp \<noteq> 200"
    and "resp_Error viewResp = ''''"
  shows "fst (executeViewQuery X b viewType ddoc viewName options) =
           Inl (ViewErr \<lparr>Message = ''HTTP Error'',
                          Reason = ''Status code was '' @ fmt_d (StatusCode resp) @ ''.''\<rparr>)"
  using executeViewQuery_answered [OF assms(1-3)] assms(4,5) by simp

text \<open>Status 404 with the body \<^verbatim>\<open>{}\<close>.\<close>

theorem http_status_error_witness:
  "DoHttp (example_request ''_view'' (''beer'', ''secret'')) 75000
     \<in> set (snd (executeViewQuery (example_outside 404 ''{}'') example_bucket
                   ''_view'' ''dd'' ''by_name'' [(''limit'', ''2'')])) \<and>
   doHttpWithTimeout (example_outside 404 ''{}'')
       (example_request ''_view'' (''beer'', ''secret'')) 75000
     = Inr \<lparr>StatusCode = 404, Body = \<lparr>content = ''{}'', close_err = None\<rparr>\<rparr> \<and>
   Decode (example_outside 404 ''{}'') ''{}''
     = Inr \<lparr>resp_TotalRows = 0, resp_Rows = [], resp_Error = '''', resp_Reason = ''''\<rparr> \<and>
   fst (executeViewQuery (example_outside 404 ''{}'') example_bucket
          ''_view'' ''dd'' ''by_name'' [(''limit'', ''2'')])
     = Inl (ViewErr \<lparr>Message = ''HTTP Error'', Reason = ''Status code was 404.''\<rparr>)"
proof -
  let ?X = "example_outside 404 ''{}''"
  let ?resp = "\<lparr>StatusCode = 404, Body = \<lparr>content = ''{}'', close_err = None\<rparr>\<rparr>"
  let ?env = "\<lparr>resp_TotalRows = 0, resp_Rows = [], resp_Error = '''', resp_Reason = ''''\<rparr>"
  have h1: "DoHttp (example_request ''_view'' (''beer'', ''secret'')) 75000
     \<in> set (snd (executeViewQuery ?X example_bucket
                   ''_view'' ''dd'' ''by_name'' [(''limit'', ''2'')]))"
    by (simp add: example_dispatch)
  have h2: "doHttpWithTimeout ?X (example_request ''_view'' (''beer'', ''secret'')) 75000 = Inr ?resp"
    by (simp add: example_outside_def)
  have h3: "Decode ?X (content (Body ?resp)) = Inr ?env"
    by (simp add: example_outside_def example_Decode_def example_body_error_def
          example_body_rows_def)
  have h4: "StatusCode ?resp \<noteq> 200" by simp
  have h5: "resp_Error ?env = ''''" by simp
  from http_status_error [OF h1 h2 h3 h4 h5] h1 h2 h3
  show ?thesis by (simp add: fmt_d_examples)
qed

text \<open>
  Claim C7. Whatever calls are made on an iterator, \<^verbatim>\<open>TotalRows\<close> returns afterwards
  what it returned before. On the iterator that \<^verbatim>\<open>executeViewQuery\<close> makes from an
  envelope, every sequence of calls runs through without a panic, and \<^verbatim>\<open>TotalRows\<close> then
  returns the envelope's \<^verbatim>\<open>total_rows\<close>.
\<close>

theorem TotalRows_unchanged:
  "(do_calls unm cs r v = Inr (xs, r', v') \<longrightarrow>
      viewResults_TotalRows r' = viewResults_TotalRows r) \<and>
   (\<exists>ys r1 v1.
      do_calls unm cs \<lparr>index = - 1, rows = resp_Rows viewResp,
                        totalRows = resp_TotalRows viewResp, err = None\<rparr> v
        = Inr (ys, r1, v1) \<and>
      viewResults_TotalRows r1 = resp_TotalRows viewResp)"
proof -
  let ?r0 = "\<lparr>index = - 1, rows = resp_Rows viewResp,
              totalRows = resp_TotalRows viewResp, err = None\<rparr>"
  have "wf_cursor ?r0" by (simp add: wf_cursor_def)
  from wf_cursor_steps [OF this, of unm cs v]
  have b: "\<exists>ys r1 v1. do_calls unm cs ?r0 v = Inr (ys, r1, v1) \<and>
      viewResults_TotalRows r1 = resp_TotalRows viewResp"
    by (auto simp add: viewResults_TotalRows_def)
  have a: "do_calls unm cs r v = Inr (xs, r', v') \<longrightarrow>
      viewResults_TotalRows r' = viewResults_TotalRows r"
    by (auto simp add: viewResults_TotalRows_def dest: do_calls_totalRows)
  from a b show ?thesis by blast
qed

text \<open>Three rows, the second of which does not decode, and a declared total of 7.\<close>

theorem TotalRows_unchanged_witness:
  "do_calls example_Unmarshal [CallNext, CallNext, CallNext, CallTotalRows]
       \<lparr>index = - 1, rows = [Some ''1'', Some ''x'', Some ''4''], totalRows = 7, err = None\<rparr> 0
     = Inr ([RetNext True, RetNext False, RetNext False, RetTotalRows 7],
            \<lparr>index = 1, rows = [Some ''1'', Some ''x'', Some ''4''], totalRows = 7,
             err = Some (OtherError ''invalid character'')\<rparr>, 1) \<and>
   viewResults_TotalRows
       \<lparr>index = 1, rows = [Some ''1'', Some ''x'', Some ''4''], totalRows = 7,
        err = Some (OtherError ''invalid character'')\<rparr>
     = viewResults_TotalRows
         \<lparr>index = - 1, rows = [Some ''1'', Some ''x'', Some ''4''], totalRows = 7, err = None\<rparr>"
proof -
  have run: "do_calls example_Unmarshal [CallNext, CallNext, CallNext, CallTotalRows]
       \<lparr>index = - 1, rows = [Some ''1'', Some ''x'', Some ''4''], totalRows = 7, err = None\<rparr> 0
     = Inr ([RetNext True, RetNext False, RetNext False, RetTotalRows 7],
            \<lparr>index = 1, rows = [Some ''1'', Some ''x'', Some ''4''], totalRows = 7,
             err = Some (OtherError ''invalid character'')\<rparr>, 1)"
    by (simp add: viewResults_Next_def viewResults_NextBytes_def viewResults_TotalRows_def
          example_Unmarshal_def Let_def)
  from TotalRows_unchanged [of example_Unmarshal
         "[CallNext, CallNext, CallNext, CallTotalRows]"
         "\<lparr>index = - 1, rows = [Some ''1'', Some ''x'', Some ''4''], totalRows = 7, err = None\<rparr>"
         0 "[RetNext True, RetNext False, RetNext False, RetTotalRows 7]"
         "\<lparr>index = 1, rows = [Some ''1'', Some ''x'', Some ''4''], totalRows = 7,
             err = Some (OtherError ''invalid character'')\<rparr>" 1]
  have "do_calls example_Unmarshal [CallNext, CallNext, CallNext, CallTotalRows]
       \<lparr>index = - 1, rows = [Some ''1'', Some ''x'', Some ''4''], totalRows = 7, err = None\<rparr> 0
     = Inr ([RetNext True, RetNext False, RetNext False, RetTotalRows 7],
            \<lparr>index = 1, rows = [Some ''1'', Some ''x'', Some ''4''], totalRows = 7,
             err = Some (OtherError ''invalid character'')\<rparr>, 1) \<longrightarrow>
   viewResults_TotalRows
       \<lparr>index = 1, rows = [Some ''1'', Some ''x'', Some ''4''], totalRows = 7,
        err = Some (OtherError ''invalid character'')\<rparr>
     = viewResults_TotalRows
         \<lparr>index = - 1, rows = [Some ''1'', Some ''x'', Some ''4''], totalRows = 7, err = None\<rparr>"
    by (rule conjunct1)
  with run show ?thesis by blast
qed

text \<open>
  Claim C8. The request that \<^verbatim>\<open>executeViewQuery\<close> hands to the transport carries, as
  basic-auth credentials, the pair the authenticator returns for the bucket name when
  \<^verbatim>\<open>b.cluster.auth\<close> is not nil, and the bucket name with the bucket password otherwise.
\<close>

theorem credentials_of_request:
  assumes "DoHttp req t \<in> set (snd (executeViewQuery X b viewType ddoc viewName options))"
  shows "BasicAuth req =
           Some (case cluster_auth b of
                   Some bucketViews \<Rightarrow>
                     (Username (bucketViews (name b)), Password (bucketViews (name b)))
                 | None \<Rightarrow> (name b, password b))"
  using executeViewQuery_dispatched [OF assms] by auto

text \<open>The example bucket without and with an authenticator.\<close>

theorem credentials_of_request_witness:
  "DoHttp (example_request ''_view'' (''beer'', ''secret'')) 75000
     \<in> set (snd (executeViewQuery (example_outside 200 ''{}'') example_bucket
                   ''_view'' ''dd'' ''by_name'' [(''limit'', ''2'')])) \<and>
   BasicAuth (example_request ''_view'' (''beer'', ''secret'')) = Some (''beer'', ''secret'') \<and>
   DoHttp (example_request ''_view'' (''admin-beer'', ''hunter2'')) 75000
     \<in> set (snd (executeViewQuery (example_outside 200 ''{}'')
                   (example_bucket\<lparr>cluster_auth := Some example_bucketViews\<rparr>)
                   ''_view'' ''dd'' ''by_name'' [(''limit'', ''2'')])) \<and>
   BasicAuth (example_request ''_view'' (''admin-beer'', ''hunter2''))
     = Some (''admin-beer'', ''hunter2'')"
proof -
  have h1: "DoHttp (example_request ''_view'' (''beer'', ''secret'')) 75000
     \<in> set (snd (executeViewQuery (example_outside 200 ''{}'') example_bucket
                   ''_view'' ''dd'' ''by_name'' [(''limit'', ''2'')]))"
    by (simp add: example_dispatch)
  have h2: "DoHttp (example_request ''_view'' (''admin-beer'', ''hunter2'')) 75000
     \<in> set (snd (executeViewQuery (example_outside 200 ''{}'')
                   (example_bucket\<lparr>cluster_auth := Some example_bucketViews\<rparr>)
                   ''_view'' ''dd'' ''by_name'' [(''limit'', ''2'')]))"
    by (simp add: executeViewQuery_def example_outside_def example_bucket_def
          example_request_def example_bucketViews_def example_Decode_def
          example_body_rows_def example_body_error_def
          http_NewRequest_def SetBasicAuth_def Let_def)
  from credentials_of_request [OF h1] credentials_of_request [OF h2] h1 h2
  show ?thesis by (simp add: example_bucket_def example_bucketViews_def)
qed

text \<open>
  Claim C9. The request that \<^verbatim>\<open>ExecuteViewQuery\<close> (\<^verbatim>\<open>ExecuteSpatialQuery\<close>) hands to the
  transport is a GET of the endpoint followed by \<^verbatim>\<open>/_design/\<close>, the design document,
  \<^verbatim>\<open>/_view/\<close> (\<^verbatim>\<open>/_spatial/\<close>), the name, \<^verbatim>\<open>?\<close> and the encoded options. When
  \<^verbatim>\<open>getInfo\<close> fails, its error is returned and there is no effect at all.
\<close>

theorem request_uri:
  "(getInfo q = Inr (ddoc, nm, opts) \<and> getViewEp b = Inr capiEp \<and>
    DoHttp req t \<in> set (snd (ExecuteViewQuery X b getInfo q)) \<longrightarrow>
      Method req = ''GET'' \<and>
      URL req = capiEp @ ''/_design/'' @ ddoc @ ''/_view/'' @ nm @ ''?'' @ Encode X opts) \<and>
   (getInfo' q' = Inr (ddoc', nm', opts') \<and> getViewEp b = Inr capiEp \<and>
    DoHttp req' t' \<in> set (snd (ExecuteSpatialQuery X b getInfo' q')) \<longrightarrow>
      Method req' = ''GET'' \<and>
      URL req' = capiEp @ ''/_design/'' @ ddoc' @ ''/_spatial/'' @ nm' @ ''?'' @ Encode X opts') \<and>
   (getInfo q1 = Inl e1 \<longrightarrow> ExecuteViewQuery X b getInfo q1 = (Inl e1, [])) \<and>
   (getInfo' q2 = Inl e2 \<longrightarrow> ExecuteSpatialQuery X b getInfo' q2 = (Inl e2, []))"
proof -
  have a: "Method req = ''GET'' \<and>
      URL req = capiEp @ ''/_design/'' @ ddoc @ ''/_view/'' @ nm @ ''?'' @ Encode X opts"
    if "getInfo q = Inr (ddoc, nm, opts)" "getViewEp b = Inr capiEp"
      "DoHttp req t \<in> set (snd (ExecuteViewQuery X b getInfo q))"
  proof -
    from that have "DoHttp req t \<in> set (snd (executeViewQuery X b ''_view'' ddoc nm opts))"
      by (simp add: ExecuteViewQuery_def)
    from executeViewQuery_dispatched [OF this] that(2) show ?thesis by auto
  qed
  have b: "Method req' = ''GET'' \<and>
      URL req' = capiEp @ ''/_design/'' @ ddoc' @ ''/_spatial/'' @ nm' @ ''?'' @ Encode X opts'"
    if "getInfo' q' = Inr (ddoc', nm', opts')" "getViewEp b = Inr capiEp"
      "DoHttp req' t' \<in> set (snd (ExecuteSpatialQuery X b getInfo' q'))"
  proof -
    from that have "DoHttp req' t' \<in> set (snd (executeViewQuery X b ''_spatial'' ddoc' nm' opts'))"
      by (simp add: ExecuteSpatialQuery_def)
    from executeViewQuery_dispatched [OF this] that(2) show ?thesis by auto
  qed
  have c: "getInfo q1 = Inl e1 \<longrightarrow> ExecuteViewQuery X b getInfo q1 = (Inl e1, [])"
    by (simp add: ExecuteViewQuery_def)
  have d: "getInfo' q2 = Inl e2 \<longrightarrow> ExecuteSpatialQuery X b getInfo' q2 = (Inl e2, [])"
    by (simp add: ExecuteSpatialQuery_def)
  from a b c d show ?thesis by blast
qed

text \<open>A view query and a spatial query that are dispatched, and a query without a
  design document.\<close>

theorem request_uri_witness:
  "example_getInfo (''dd'', ''by_name'', [(''limit'', ''2'')])
     = Inr (''dd'', ''by_name'', [(''limit'', ''2'')]) \<and>
   DoHttp (example_request ''_view'' (''beer'', ''secret'')) 75000
     \<in> set (snd (ExecuteViewQuery (example_outside 200 ''{}'') example_bucket example_getInfo
                   (''dd'', ''by_name'', [(''limit'', ''2'')]))) \<and>
   URL (example_request ''_view'' (''beer'', ''secret''))
     = ''http://10.0.0.1:8092/beer/_design/dd/_view/by_name?limit=2'' \<and>
   DoHttp (example_request ''_spatial'' (''beer'', ''secret'')) 75000
     \<in> set (snd (ExecuteSpatialQuery (example_outside 200 ''{}'') example_bucket example_getInfo
                   (''dd'', ''by_name'', [(''limit'', ''2'')]))) \<and>
   URL (example_request ''_spatial'' (''beer'', ''secret''))
     = ''http://10.0.0.1:8092/beer/_design/dd/_spatial/by_name?limit=2'' \<and>
   example_getInfo ('''', ''by_name'', []) = Inl (OtherError ''invalid query'') \<and>
   ExecuteViewQuery (example_outside 200 ''{}'') example_bucket example_getInfo
       ('''', ''by_name'', [])
     = (Inl (OtherError ''invalid query''), []) \<and>
   ExecuteSpatialQuery (example_outside 200 ''{}'') example_bucket example_getInfo
       ('''', ''by_name'', [])
     = (Inl (OtherError ''invalid query''), [])"
proof -
  let ?X = "example_outside 200 ''{}''"
  let ?q = "(''dd'', ''by_name'', [(''limit'', ''2'')])"
  have g: "example_getInfo ?q = Inr ?q" by (simp add: example_getInfo_def)
  have f: "example_getInfo ('''', ''by_name'', []) = Inl (OtherError ''invalid query'')"
    by (simp add: example_getInfo_def)
  have ep: "getViewEp example_bucket = Inr ''http://10.0.0.1:8092/beer''"
    by (simp add: example_bucket_def)
  have h1: "DoHttp (example_request ''_view'' (''beer'', ''secret'')) 75000
     \<in> set (snd (ExecuteViewQuery ?X example_bucket example_getInfo ?q))"
    by (simp add: ExecuteViewQuery_def g example_dispatch)
  have h2: "DoHttp (example_request ''_spatial'' (''beer'', ''secret'')) 75000
     \<in> set (snd (ExecuteSpatialQuery ?X example_bucket example_getInfo ?q))"
    by (simp add: ExecuteSpatialQuery_def g example_dispatch)
  from request_uri [of example_getInfo ?q "''dd''" "''by_name''" "[(''limit'', ''2'')]"
      example_bucket "''http://10.0.0.1:8092/beer''"
      "example_request ''_view'' (''beer'', ''secret'')" 75000 ?X
      example_getInfo ?q "''dd''" "''by_name''" "[(''limit'', ''2'')]"
      "example_request ''_spatial'' (''beer'', ''secret'')" 75000
      "('''', ''by_name'', [])" "OtherError ''invalid query''"
      "('''', ''by_name'', [])" "OtherError ''invalid query''"]
    g f ep h1 h2
  show ?thesis by (simp add: example_outside_def)
qed

text \<open>
  Claim C10. On an iterator over two or more rows of which the first two decode, \<^verbatim>\<open>One\<close>
  returns nil with the first row decoded and the cursor on the first row; \<^verbatim>\<open>Close\<close>
  only reads \<^verbatim>\<open>err\<close>; the next \<^verbatim>\<open>Next\<close> returns true and decodes the second row.
\<close>

theorem One_leaves_rest:
  assumes "unm b1 v = (None, v1)" and "unm b2 v1 = (None, v2)"
  shows "viewResults_One unm
             \<lparr>index = - 1, rows = Some b1 # Some b2 # rest, totalRows = n, err = None\<rparr> v
           = Inr (None, \<lparr>index = 0, rows = Some b1 # Some b2 # rest, totalRows = n, err = None\<rparr>, v1) \<and>
         viewResults_Close \<lparr>index = 0, rows = Some b1 # Some b2 # rest, totalRows = n, err = None\<rparr>
           = None \<and>
         viewResults_Next unm
             \<lparr>index = 0, rows = Some b1 # Some b2 # rest, totalRows = n, err = None\<rparr> v1
           = Inr (True, \<lparr>index = 1, rows = Some b1 # Some b2 # rest, totalRows = n, err = None\<rparr>, v2)"
  using assms
  by (simp add: viewResults_One_def viewResults_Next_def viewResults_NextBytes_def
        viewResults_Close_def Let_def)

text \<open>Three rows: \<^verbatim>\<open>One\<close>, then \<^verbatim>\<open>Next\<close>.\<close>

theorem One_leaves_rest_witness:
  "example_Unmarshal ''1'' 0 = (None, 1) \<and> example_Unmarshal ''2'' 1 = (None, 2) \<and>
   do_calls example_Unmarshal [CallOne, CallNext]
       \<lparr>index = - 1, rows = [Some ''1'', Some ''2'', Some ''4''], totalRows = 3, err = None\<rparr> 0
     = Inr ([RetOne None, RetNext True],
            \<lparr>index = 1, rows = [Some ''1'', Some ''2'', Some ''4''], totalRows = 3, err = None\<rparr>, 2)"
proof -
  have h1: "example_Unmarshal ''1'' 0 = (None, 1)" by (simp add: example_Unmarshal_def)
  have h2: "example_Unmarshal ''2'' 1 = (None, 2)" by (simp add: example_Unmarshal_def)
  from One_leaves_rest [OF h1 h2, of "[Some ''4'']" 3] h1 h2
  show ?thesis by simp
qed

end
